theory Spec2Isabelle
  imports Main "HOL-Library.Sublist" "HOL-Library.AList"
begin

section \<open>Python strings\<close>

text \<open>
  A Python \<open>str\<close> is modelled as a \<open>string\<close> whose characters are code points below 256.
  \<open>str.strip()\<close> without arguments removes the characters for which \<open>str.isspace\<close> holds
  from both ends; below 256 these are TAB..CR (9..13), FS..US (28..31), the blank (32),
  NEL (133) and the no-break space (160).
\<close>

definition isspace :: "char \<Rightarrow> bool" where
  "isspace c = (let n = (of_char c :: nat) in
     (9 \<le> n \<and> n \<le> 13) \<or> (28 \<le> n \<and> n \<le> 32) \<or> n = 133 \<or> n = 160)"

definition strip :: "string \<Rightarrow> string" where
  "strip s = rev (dropWhile isspace (rev (dropWhile isspace s)))"

text \<open>The character class \<open>[a-zA-Z]\<close> of a \<open>str\<close> pattern: the ASCII letters only.\<close>

definition ascii_letter :: "char \<Rightarrow> bool" where
  "ascii_letter c = (let n = (of_char c :: nat) in
     (97 \<le> n \<and> n \<le> 122) \<or> (65 \<le> n \<and> n \<le> 90))"

definition newline :: char where
  "newline = CHR 0x0A"

definition fence :: string where
  "fence = ''```''"


section \<open>aiEnglishQuery.clean_ai_response\<close>

text \<open>
  \<^verbatim>\<open>cleaned = re.sub(r'^```[a-zA-Z]*\n?', '', ai_response.strip())\<close>

  Without \<open>re.MULTILINE\<close> the anchor \<open>^\<close> matches at position 0 only, so there is at most
  one match. After the three backticks both quantifiers are greedy and each always
  succeeds: all ASCII letters that follow are taken, then one newline when there is one.
\<close>

definition sub_open_fence :: "string \<Rightarrow> string" where
  "sub_open_fence s =
     (if prefix fence s
      then (case dropWhile ascii_letter (drop 3 s) of
              [] \<Rightarrow> []
            | c # r \<Rightarrow> if c = newline then r else c # r)
      else s)"

text \<open>
  \<^verbatim>\<open>cleaned = re.sub(r'\n?```$', '', cleaned.strip())\<close>

  \<open>$\<close> holds at the end of the string and just before a newline that is its last
  character. \<open>re.sub\<close> scans from the left; at each position it tries the pattern with
  the optional newline first and without it second. What follows a match is empty or a
  single newline, where the pattern cannot match again.
\<close>

definition at_dollar :: "string \<Rightarrow> bool" where
  "at_dollar r = (r = [] \<or> r = [newline])"

definition match_close_fence :: "string \<Rightarrow> string option" where
  "match_close_fence s =
     (if prefix (newline # fence) s \<and> at_dollar (drop 4 s) then Some (drop 4 s)
      else if prefix fence s \<and> at_dollar (drop 3 s) then Some (drop 3 s)
      else None)"

fun sub_close_fence :: "string \<Rightarrow> string" where
  "sub_close_fence [] = []"
| "sub_close_fence (c # cs) =
     (case match_close_fence (c # cs) of
        Some r \<Rightarrow> r
      | None \<Rightarrow> c # sub_close_fence cs)"

definition clean_ai_response :: "string \<Rightarrow> string" where
  "clean_ai_response ai_response =
     (let cleaned = sub_open_fence (strip ai_response);
          cleaned = sub_close_fence (strip cleaned)
      in cleaned)"




section \<open>Python values, dictionaries and exceptions\<close>

datatype sqlval = Null | IntVal int | StrVal string

text \<open>
  A \<open>dict\<close> keeps its keys in insertion order: it is an association list whose keys are
  distinct. \<open>dict(pairs)\<close> inserts the pairs from left to right; a key that is already
  there keeps its place and takes the new value, which is what \<open>AList.update\<close> does.
\<close>

type_synonym row = "(string \<times> sqlval) list"

definition py_dict :: "('k \<times> 'v) list \<Rightarrow> ('k \<times> 'v) list" where
  "py_dict kvs = fold (\<lambda>(k, v) d. AList.update k v d) kvs []"

definition dict_keys :: "('k \<times> 'v) list \<Rightarrow> 'k list" where
  "dict_keys d = map fst d"

definition dict_get :: "('k \<times> 'v) list \<Rightarrow> 'k \<Rightarrow> 'v \<Rightarrow> 'v" where
  "dict_get d k dflt = (case map_of d k of None \<Rightarrow> dflt | Some v \<Rightarrow> v)"

text \<open>
  The exceptions that reach the model. \<open>Error\<close> is \<open>mysql.connector.Error\<close> with its
  subclasses; \<open>OtherException\<close> is any other subclass of \<open>Exception\<close>.
\<close>

datatype exn =
    Error string
  | ValueError string
  | ConnectionError string
  | RuntimeError string
  | AttributeError string
  | TypeError string
  | OtherException string


section \<open>mariadb_connector: the state of a MariaDBConnection\<close>

record config =
  host :: string
  port :: int
  user :: string
  password :: string
  database :: "string option"
  autocommit :: bool
  charset :: string
  use_unicode :: bool
  get_warnings :: bool
  raise_on_warnings :: bool
  connection_timeout :: int

text \<open>
  \<open>connection\<close> and \<open>cursor\<close> hold \<open>None\<close> or a driver object; a driver object is
  identified by the number of the session it belongs to.
\<close>

record MariaDBConnection =
  config :: config
  reconnect_attempts :: int
  reconnect_delay :: int
  connection :: "nat option"
  cursor :: "nat option"

text \<open>\<open>MariaDBConnection.__init__\<close>, with every argument given.\<close>

definition init ::
  "string \<Rightarrow> int \<Rightarrow> string \<Rightarrow> string \<Rightarrow> string option \<Rightarrow> bool \<Rightarrow> string \<Rightarrow> int \<Rightarrow> int
     \<Rightarrow> MariaDBConnection" where
  "init host' port' user' password' database' autocommit' charset'
        reconnect_attempts' reconnect_delay' =
     \<lparr>config = \<lparr>host = host', port = port', user = user', password = password',
                 database = database', autocommit = autocommit', charset = charset',
                 use_unicode = True, get_warnings = True, raise_on_warnings = False,
                 connection_timeout = 10\<rparr>,
      reconnect_attempts = reconnect_attempts',
      reconnect_delay = reconnect_delay',
      connection = None,
      cursor = None\<rparr>"


section \<open>The database driver and the clock\<close>

text \<open>
  \<open>mysql.connector\<close> and \<open>time.sleep\<close> are outside the repository. Their side of each
  call is kept in a \<open>world\<close>: the sessions that are open, the state of the cursor after the
  last statement, and the \<open>trace\<close> of every call made so far, in order.

  What the environment decides is given by a \<open>driver\<close>, a record of replies indexed by the
  number of calls made before (\<open>now\<close>), so that every sequence of replies is covered:
  \<^item> whether \<open>mysql.connector.connect\<close> returns a session or raises \<open>Error\<close>;
  \<^item> whether an open session still answers when \<open>is_connected()\<close> asks; a session that
    does not answer is lost for good;
  \<^item> whether \<open>cursor.execute(sql)\<close> raises, and which result set it leaves otherwise;
  \<^item> how many rows \<open>fetchmany(size)\<close> asks for (the driver reads \<open>size\<close>).

  The other driver calls of the module (\<open>close\<close>, \<open>cursor\<close>, \<open>commit\<close>, \<open>rollback\<close>,
  \<open>fetchall\<close>, \<open>fetchmany\<close>) are taken to succeed: they are recorded in the trace and
  change the world as described, and they do not raise.
\<close>

record cursor_state =
  with_rows :: bool
  description :: "string list option"
  remaining :: "sqlval list list"
  rowcount :: int

datatype event =
    ConnectOk config nat
  | ConnectFailed config string
  | Cursor nat
  | IsConnected nat
  | Close nat
  | Sleep int
  | Execute nat string
  | FetchAll nat
  | FetchMany nat int
  | Commit nat
  | Rollback nat
  | Yield row

record driver =
  connect_reply :: "nat \<Rightarrow> string option"
  link_up :: "nat \<Rightarrow> bool"
  execute_reply :: "nat \<Rightarrow> string \<Rightarrow> exn + cursor_state"
  fetchmany_limit :: "int \<Rightarrow> nat"

record world =
  live :: "nat set"
  next_handle :: nat
  cur :: cursor_state
  trace :: "event list"

definition now :: "world \<Rightarrow> nat" where
  "now w = length (trace w)"

definition emit :: "event \<Rightarrow> world \<Rightarrow> world" where
  "emit e w = w\<lparr>trace := trace w @ [e]\<rparr>"

text \<open>\<open>mysql.connector.connect\<close> with the configuration as keyword arguments: a new session, or \<open>Error\<close> with a message.\<close>

definition mysql_connect :: "driver \<Rightarrow> config \<Rightarrow> world \<Rightarrow> (string + nat) \<times> world" where
  "mysql_connect drv cfg w =
     (case connect_reply drv (now w) of
        Some msg \<Rightarrow> (Inl msg, emit (ConnectFailed cfg msg) w)
      | None \<Rightarrow>
          (let h = next_handle w
           in (Inr h, emit (ConnectOk cfg h)
                        (w\<lparr>live := insert h (live w), next_handle := Suc h\<rparr>))))"

definition is_connected :: "driver \<Rightarrow> nat \<Rightarrow> world \<Rightarrow> bool \<times> world" where
  "is_connected drv h w =
     (let alive = (h \<in> live w \<and> link_up drv (now w))
      in (alive, emit (IsConnected h) (if alive then w else w\<lparr>live := live w - {h}\<rparr>)))"

definition connection_close :: "nat \<Rightarrow> world \<Rightarrow> world" where
  "connection_close h w = emit (Close h) (w\<lparr>live := live w - {h}\<rparr>)"

definition connection_cursor :: "nat \<Rightarrow> world \<Rightarrow> world" where
  "connection_cursor h w = emit (Cursor h) w"

definition connection_commit :: "nat \<Rightarrow> world \<Rightarrow> world" where
  "connection_commit h w = emit (Commit h) w"

definition connection_rollback :: "nat \<Rightarrow> world \<Rightarrow> world" where
  "connection_rollback h w = emit (Rollback h) w"

definition cursor_execute :: "driver \<Rightarrow> nat \<Rightarrow> string \<Rightarrow> world \<Rightarrow> (exn + unit) \<times> world" where
  "cursor_execute drv c sql w =
     (case execute_reply drv (now w) sql of
        Inl err \<Rightarrow> (Inl err, emit (Execute c sql) w)
      | Inr cs \<Rightarrow> (Inr (), emit (Execute c sql) (w\<lparr>cur := cs\<rparr>)))"

definition cursor_fetchall :: "nat \<Rightarrow> world \<Rightarrow> sqlval list list \<times> world" where
  "cursor_fetchall c w =
     (remaining (cur w), emit (FetchAll c) (w\<lparr>cur := (cur w)\<lparr>remaining := []\<rparr>\<rparr>))"

definition cursor_fetchmany :: "driver \<Rightarrow> nat \<Rightarrow> int \<Rightarrow> world \<Rightarrow> sqlval list list \<times> world" where
  "cursor_fetchmany drv c n w =
     (let k = fetchmany_limit drv n
      in (take k (remaining (cur w)),
          emit (FetchMany c n) (w\<lparr>cur := (cur w)\<lparr>remaining := drop k (remaining (cur w))\<rparr>\<rparr>)))"

text \<open>\<open>time.sleep(secs)\<close> raises \<open>ValueError\<close> on a negative argument.\<close>

definition time_sleep :: "int \<Rightarrow> world \<Rightarrow> exn + world" where
  "time_sleep secs w =
     (if secs < 0 then Inl (ValueError ''sleep length must be non-negative'')
      else Inr (emit (Sleep secs) w))"


section \<open>MariaDBConnection._connect\<close>

text \<open>
  The body of the \<open>try\<close> of one pass through the loop:
  \<^verbatim>\<open>
    if self.connection and self.connection.is_connected():
        return True
    if self.connection:
        self.connection.close()
    self.connection = mysql.connector.connect( **self.config )
    self.cursor = self.connection.cursor()
    return True
  \<close>
  \<open>Inr ()\<close> is either \<open>return True\<close>; \<open>Inl err\<close> is the \<open>Error\<close> that the handler receives.
\<close>

definition connect_attempt ::
  "driver \<Rightarrow> MariaDBConnection \<Rightarrow> world \<Rightarrow> (string + unit) \<times> MariaDBConnection \<times> world" where
  "connect_attempt drv self w =
     (let (alive, w1) = (case connection self of
                           None \<Rightarrow> (False, w)
                         | Some h \<Rightarrow> is_connected drv h w)
      in if alive then (Inr (), self, w1)
         else
           (let w2 = (case connection self of
                        None \<Rightarrow> w1
                      | Some h \<Rightarrow> connection_close h w1)
            in case mysql_connect drv (config self) w2 of
                 (Inl err, w3) \<Rightarrow> (Inl err, self, w3)
               | (Inr h', w3) \<Rightarrow>
                   (let self1 = self\<lparr>connection := Some h'\<rparr>;
                        self2 = self1\<lparr>cursor := Some h'\<rparr>
                    in (Inr (), self2, connection_cursor h' w3))))"

text \<open>
  \<^verbatim>\<open>
    for attempt in range(self.reconnect_attempts + 1):
        try: ...
        except Error as err:
            if attempt < self.reconnect_attempts:
                time.sleep(self.reconnect_delay)
            else:
                return False
    return False
  \<close>
  The loop runs over the list of the values of \<open>attempt\<close>. An exception of \<open>time.sleep\<close>
  is raised inside the handler and leaves the method.
\<close>

fun connect_loop ::
  "driver \<Rightarrow> int list \<Rightarrow> MariaDBConnection \<Rightarrow> world
     \<Rightarrow> (exn + bool) \<times> MariaDBConnection \<times> world" where
  "connect_loop drv [] self w = (Inr False, self, w)"
| "connect_loop drv (attempt # rest) self w =
     (case connect_attempt drv self w of
        (Inr _, self1, w1) \<Rightarrow> (Inr True, self1, w1)
      | (Inl err, self1, w1) \<Rightarrow>
          if attempt < reconnect_attempts self1
          then (case time_sleep (reconnect_delay self1) w1 of
                  Inl e \<Rightarrow> (Inl e, self1, w1)
                | Inr w2 \<Rightarrow> connect_loop drv rest self1 w2)
          else (Inr False, self1, w1))"

text \<open>
  \<open>_connect\<close> (an Isabelle name cannot start with an underscore);
  \<open>range(self.reconnect_attempts + 1)\<close> is the list \<open>[0..reconnect_attempts self]\<close>, empty
  when \<open>reconnect_attempts\<close> is negative.
\<close>

definition connect ::
  "driver \<Rightarrow> MariaDBConnection \<Rightarrow> world \<Rightarrow> (exn + bool) \<times> MariaDBConnection \<times> world" where
  "connect drv self w = connect_loop drv [0..reconnect_attempts self] self w"


section \<open>MariaDBConnection.get_cursor and the query methods\<close>

text \<open>
  \<open>with self.get_cursor() as cursor: body\<close>. The context manager raises
  \<open>ConnectionError\<close> when \<open>_connect()\<close> is false, yields \<open>self.cursor\<close> to the body, and
  on an \<open>Error\<close> or any other \<open>Exception\<close> of the body calls
  \<open>self.connection.rollback()\<close> and raises the exception again. Both handlers do the
  same but for the text they log.
\<close>

definition get_cursor ::
  "driver \<Rightarrow> (MariaDBConnection \<Rightarrow> nat option \<Rightarrow> world \<Rightarrow> (exn + 'a) \<times> world)
     \<Rightarrow> MariaDBConnection \<Rightarrow> world \<Rightarrow> (exn + 'a) \<times> MariaDBConnection \<times> world" where
  "get_cursor drv body self w =
     (case connect drv self w of
        (Inl e, self1, w1) \<Rightarrow> (Inl e, self1, w1)
      | (Inr ok, self1, w1) \<Rightarrow>
          if \<not> ok then (Inl (ConnectionError ''Failed to connect to MariaDB''), self1, w1)
          else
            (case body self1 (cursor self1) w1 of
               (Inr v, w2) \<Rightarrow> (Inr v, self1, w2)
             | (Inl err, w2) \<Rightarrow>
                 (case connection self1 of
                    None \<Rightarrow>
                      (Inl (AttributeError ''NoneType object has no attribute rollback''), self1, w2)
                  | Some h \<Rightarrow> (Inl err, self1, connection_rollback h w2))))"

text \<open>
  The body of \<open>execute\<close>:
  \<^verbatim>\<open>
    cursor.execute(sql)
    if cursor.with_rows and cursor.description:
        columns = [desc[0] for desc in cursor.description]
        results = [dict(zip(columns, row)) for row in cursor.fetchall()]
        return results
    else:
        return []
  \<close>
\<close>

definition execute_body ::
  "driver \<Rightarrow> string \<Rightarrow> MariaDBConnection \<Rightarrow> nat option \<Rightarrow> world \<Rightarrow> (exn + row list) \<times> world" where
  "execute_body drv sql self cursor' w =
     (case cursor' of
        None \<Rightarrow> (Inl (AttributeError ''NoneType object has no attribute execute''), w)
      | Some c \<Rightarrow>
          (case cursor_execute drv c sql w of
             (Inl err, w1) \<Rightarrow> (Inl err, w1)
           | (Inr _, w1) \<Rightarrow>
               (case (with_rows (cur w1), description (cur w1)) of
                  (True, Some (col # cols)) \<Rightarrow>
                    (let columns = col # cols;
                         (rows, w2) = cursor_fetchall c w1;
                         results = map (\<lambda>row. py_dict (zip columns row)) rows
                     in (Inr results, w2))
                | _ \<Rightarrow> (Inr [], w1))))"

text \<open>
  \<^verbatim>\<open>
    if not sql.strip():
        raise ValueError("Empty SQL statement")
    with self.get_cursor() as cursor: ...
  \<close>
\<close>

definition execute ::
  "driver \<Rightarrow> MariaDBConnection \<Rightarrow> string \<Rightarrow> world
     \<Rightarrow> (exn + row list) \<times> MariaDBConnection \<times> world" where
  "execute drv self sql w =
     (if strip sql = [] then (Inl (ValueError ''Empty SQL statement''), self, w)
      else get_cursor drv (execute_body drv sql) self w)"

text \<open>
  The body of \<open>execute_modify\<close>:
  \<^verbatim>\<open>
    cursor.execute(sql)
    self.connection.commit()
    affected = cursor.rowcount
    return affected
  \<close>
\<close>

definition execute_modify_body ::
  "driver \<Rightarrow> string \<Rightarrow> MariaDBConnection \<Rightarrow> nat option \<Rightarrow> world \<Rightarrow> (exn + int) \<times> world" where
  "execute_modify_body drv sql self cursor' w =
     (case cursor' of
        None \<Rightarrow> (Inl (AttributeError ''NoneType object has no attribute execute''), w)
      | Some c \<Rightarrow>
          (case cursor_execute drv c sql w of
             (Inl err, w1) \<Rightarrow> (Inl err, w1)
           | (Inr _, w1) \<Rightarrow>
               (case connection self of
                  None \<Rightarrow> (Inl (AttributeError ''NoneType object has no attribute commit''), w1)
                | Some h \<Rightarrow>
                    (let w2 = connection_commit h w1;
                         affected = rowcount (cur w2)
                     in (Inr affected, w2)))))"

definition execute_modify ::
  "driver \<Rightarrow> MariaDBConnection \<Rightarrow> string \<Rightarrow> world
     \<Rightarrow> (exn + int) \<times> MariaDBConnection \<times> world" where
  "execute_modify drv self sql w =
     (if strip sql = [] then (Inl (ValueError ''Empty SQL statement''), self, w)
      else get_cursor drv (execute_modify_body drv sql) self w)"

text \<open>
  \<open>query_generator\<close> is a generator. The model is what iterating it to its end does;
  each \<open>yield\<close> is recorded in the trace, between the \<open>fetchmany\<close> calls that surround it.
  \<^verbatim>\<open>
    while True:
        rows = cursor.fetchmany(chunk_size)
        if not rows:
            break
        columns = [desc[0] for desc in cursor.description]
        for row in rows:
            yield dict(zip(columns, row))
  \<close>
\<close>

definition yield_all :: "string list \<Rightarrow> sqlval list list \<Rightarrow> world \<Rightarrow> world" where
  "yield_all columns rows w = fold (\<lambda>row. emit (Yield (py_dict (zip columns row)))) rows w"

lemma cur_yield_all [simp]: "cur (yield_all columns rows w) = cur w"
  unfolding yield_all_def by (induction rows arbitrary: w) (simp_all add: emit_def)

function fetch_loop :: "driver \<Rightarrow> nat \<Rightarrow> int \<Rightarrow> world \<Rightarrow> (exn + unit) \<times> world" where
  "fetch_loop drv c chunk_size w =
     (case cursor_fetchmany drv c chunk_size w of
        (rows, w1) \<Rightarrow>
          if rows = [] then (Inr (), w1)
          else
            (case description (cur w1) of
               None \<Rightarrow> (Inl (TypeError ''NoneType object is not iterable''), w1)
             | Some columns \<Rightarrow> fetch_loop drv c chunk_size (yield_all columns rows w1)))"
  by pat_completeness auto
termination
  apply (relation "measure (\<lambda>(drv, c, chunk_size, w). length (remaining (cur w)))")
   apply simp
  apply (auto simp: cursor_fetchmany_def Let_def emit_def)
  done

definition query_generator_body ::
  "driver \<Rightarrow> string \<Rightarrow> int \<Rightarrow> MariaDBConnection \<Rightarrow> nat option \<Rightarrow> world
     \<Rightarrow> (exn + unit) \<times> world" where
  "query_generator_body drv sql chunk_size self cursor' w =
     (case cursor' of
        None \<Rightarrow> (Inl (AttributeError ''NoneType object has no attribute execute''), w)
      | Some c \<Rightarrow>
          (case cursor_execute drv c sql w of
             (Inl err, w1) \<Rightarrow> (Inl err, w1)
           | (Inr _, w1) \<Rightarrow> fetch_loop drv c chunk_size w1))"

definition query_generator ::
  "driver \<Rightarrow> MariaDBConnection \<Rightarrow> string \<Rightarrow> int \<Rightarrow> world
     \<Rightarrow> (exn + unit) \<times> MariaDBConnection \<times> world" where
  "query_generator drv self sql chunk_size w =
     get_cursor drv (query_generator_body drv sql chunk_size) self w"

text \<open>
  \<^verbatim>\<open>
    def close(self):
        if self.connection and self.connection.is_connected():
            self.connection.close()
  \<close>
\<close>

definition close ::
  "driver \<Rightarrow> MariaDBConnection \<Rightarrow> world \<Rightarrow> (exn + unit) \<times> MariaDBConnection \<times> world" where
  "close drv self w =
     (case connection self of
        None \<Rightarrow> (Inr (), self, w)
      | Some h \<Rightarrow>
          (case is_connected drv h w of
             (alive, w1) \<Rightarrow>
               if alive then (Inr (), self, connection_close h w1)
               else (Inr (), self, w1)))"


section \<open>aiEnglishQuery: the result grid\<close>

text \<open>
  The \<open>ttk.Treeview\<close> that shows the results: its column identifiers, the heading text
  and the options of each column, and its items in display order, each with the
  identifier Tk gives it and its values.
\<close>

record column_options =
  anchor :: string
  width :: int
  minwidth :: int
  stretch :: bool

record treeview =
  tv_columns :: "string list"
  tv_headings :: "(string \<times> string) list"
  tv_column_options :: "(string \<times> column_options) list"
  tv_items :: "(nat \<times> sqlval list) list"
  tv_next_item :: nat

text \<open>
  The widget calls the module makes: \<open>get_children()\<close>, \<open>delete(item)\<close>,
  \<open>tree["columns"] = cols\<close>, \<open>heading(col, text=...)\<close>, \<open>column(col, ...)\<close> and
  \<open>insert("", "end", values=...)\<close>.
\<close>

definition get_children :: "treeview \<Rightarrow> nat list" where
  "get_children tv = map fst (tv_items tv)"

definition delete :: "nat \<Rightarrow> treeview \<Rightarrow> treeview" where
  "delete item tv = tv\<lparr>tv_items := filter (\<lambda>(i, values). i \<noteq> item) (tv_items tv)\<rparr>"

definition set_columns :: "string list \<Rightarrow> treeview \<Rightarrow> treeview" where
  "set_columns cols tv = tv\<lparr>tv_columns := cols\<rparr>"

definition heading :: "string \<Rightarrow> string \<Rightarrow> treeview \<Rightarrow> treeview" where
  "heading col txt tv = tv\<lparr>tv_headings := AList.update col txt (tv_headings tv)\<rparr>"

definition column :: "string \<Rightarrow> column_options \<Rightarrow> treeview \<Rightarrow> treeview" where
  "column col opts tv = tv\<lparr>tv_column_options := AList.update col opts (tv_column_options tv)\<rparr>"

definition insert_end :: "sqlval list \<Rightarrow> treeview \<Rightarrow> treeview" where
  "insert_end values tv =
     tv\<lparr>tv_items := tv_items tv @ [(tv_next_item tv, values)], tv_next_item := Suc (tv_next_item tv)\<rparr>"


section \<open>aiEnglishQuery: the window\<close>

text \<open>
  The state of the frame that the methods read and write: the connection \<open>db\<close>, the
  content of the text box, the status line, whether the result frame is managed by the
  grid (\<open>grid()\<close> against \<open>grid_remove()\<close>), the result tree, the height of the text
  box in lines and the minimum size of grid row 0, and the warnings shown. Three values
  come from the window system: the height of the master window (\<open>None\<close> without a
  master), the line height of the font, and whether the result frame is mapped on the
  screen at this moment.
\<close>

record aiEnglishQuery =
  db :: "MariaDBConnection option"
  text_widget :: string
  status_var :: string
  result_frame_gridded :: bool
  result_frame_ismapped :: bool
  result_tree :: treeview
  master_height :: "int option"
  linespace :: int
  text_height :: int
  row0_minsize :: int
  warnings :: "(string \<times> string) list"

text \<open>\<open>str.lower()\<close> on code points below 256, and \<open>str(n)\<close> for a length.\<close>

definition lower_char :: "char \<Rightarrow> char" where
  "lower_char c = (let n = (of_char c :: nat) in
     if (65 \<le> n \<and> n \<le> 90) \<or> (192 \<le> n \<and> n \<le> 222 \<and> n \<noteq> 215) then char_of (n + 32) else c)"

definition lower :: "string \<Rightarrow> string" where
  "lower s = map lower_char s"

fun str_nat :: "nat \<Rightarrow> string" where
  "str_nat n = (if n < 10 then [char_of (48 + n)] else str_nat (n div 10) @ [char_of (48 + n mod 10)])"

declare str_nat.simps [simp del]


text \<open>
  \<open>_on_root_resize\<close>. Any exception inside it is swallowed: without a master
  \<open>self.master.winfo_height()\<close> raises and the handler returns; when the result frame is
  not mapped, the \<open>else\<close> branch reads \<open>current_minsize\<close> before it is bound, which
  raises inside the inner \<open>try\<close> and changes nothing. For a positive height
  \<open>int(total_height * 0.25)\<close> is \<open>total_height div 4\<close> and \<open>int(total_height * 0.5)\<close>
  is \<open>total_height div 2\<close>.
  \<^verbatim>\<open>
    total_height = self.master.winfo_height()
    if total_height <= 0:
        return
    max_pixels = int(total_height * 0.25)
    line_height = self._text_font.metrics("linespace") or 1
    max_lines = max(1, max_pixels // line_height)
    min_lines = 2
    desired_lines = max(min_lines, max_lines)
    current_height = int(self.text.cget("height"))
    if current_height != desired_lines:
        self.text.configure(height=desired_lines)
    try:
        min_grid_pixels = int(total_height * 0.5)
        if hasattr(self, 'result_frame') and self.result_frame.winfo_ismapped():
            current_minsize = self.grid_rowconfigure(0).get('minsize', 0) or 0
            if current_minsize != min_grid_pixels:
                self.grid_rowconfigure(0, minsize=min_grid_pixels)
        else:
            if current_minsize != 0:
                self.grid_rowconfigure(0, minsize=0)
    except Exception:
        pass
  \<close>
\<close>

definition desired_lines :: "int \<Rightarrow> int \<Rightarrow> int" where
  "desired_lines total_height linespace' =
     (let max_pixels = total_height div 4;
          line_height = (if linespace' = 0 then 1 else linespace');
          max_lines = max 1 (max_pixels div line_height);
          min_lines = 2
      in max min_lines max_lines)"

definition min_grid_pixels :: "int \<Rightarrow> int" where
  "min_grid_pixels total_height = total_height div 2"

definition on_root_resize :: "aiEnglishQuery \<Rightarrow> aiEnglishQuery" where
  "on_root_resize self =
     (case master_height self of
        None \<Rightarrow> self
      | Some total_height \<Rightarrow>
          if total_height \<le> 0 then self
          else
            (let current_height = text_height self;
                 self1 = (if current_height \<noteq> desired_lines total_height (linespace self)
                          then self\<lparr>text_height := desired_lines total_height (linespace self)\<rparr>
                          else self)
             in if result_frame_ismapped self1
                then (let current_minsize = row0_minsize self1
                      in if current_minsize \<noteq> min_grid_pixels total_height
                         then self1\<lparr>row0_minsize := min_grid_pixels total_height\<rparr> else self1)
                else self1))"

text \<open>
  \<open>load_to_tkinter_grid\<close>. The three loops are folds over the children, the columns
  and the rows.
  \<^verbatim>\<open>
    if not results:
        return
    for item in self.result_tree.get_children():
        self.result_tree.delete(item)
    columns = list(results[0].keys())
    self.result_tree["columns"] = columns
    for col in columns:
        self.result_tree.heading(col, text=col)
        width = 200 if col.lower() == "name" else 120
        self.result_tree.column(col, anchor="w", width=width, minwidth=width, stretch=False)
    for row in results:
        self.result_tree.insert("", "end", values=[row.get(col, "") for col in columns])
    self.result_frame.grid()
    self._on_root_resize(None)
  \<close>
\<close>

definition configure_column :: "string \<Rightarrow> treeview \<Rightarrow> treeview" where
  "configure_column col tv =
     (let tv1 = heading col col tv;
          width' = (if lower col = ''name'' then 200 else 120)
      in column col \<lparr>anchor = ''w'', width = width', minwidth = width', stretch = False\<rparr> tv1)"

definition insert_row :: "string list \<Rightarrow> row \<Rightarrow> treeview \<Rightarrow> treeview" where
  "insert_row columns row tv = insert_end (map (\<lambda>col. dict_get row col (StrVal '''')) columns) tv"

definition load_to_tkinter_grid :: "aiEnglishQuery \<Rightarrow> row list \<Rightarrow> aiEnglishQuery" where
  "load_to_tkinter_grid self results =
     (case results of
        [] \<Rightarrow> self
      | first # others \<Rightarrow>
          (let tv1 = fold delete (get_children (result_tree self)) (result_tree self);
               columns = dict_keys first;
               tv2 = set_columns columns tv1;
               tv3 = fold configure_column columns tv2;
               tv4 = fold (insert_row columns) results tv3;
               self1 = self\<lparr>result_tree := tv4\<rparr>;
               self2 = self1\<lparr>result_frame_gridded := True\<rparr>
           in on_root_resize self2))"

text \<open>
  \<open>generate_sql\<close> sends the text to the translator (\<open>self.payload.send_message\<close>, a
  library outside the repository, here a parameter) and cleans the reply;
  \<open>execute_sql\<close> raises \<open>RuntimeError\<close> without a connection and otherwise passes on
  what \<open>self.db.execute(sql)\<close> returns or raises.
\<close>

definition generate_sql :: "(string \<Rightarrow> exn + string) \<Rightarrow> string \<Rightarrow> exn + string" where
  "generate_sql send_message user_msg =
     (case send_message user_msg of
        Inl e \<Rightarrow> Inl e
      | Inr reply \<Rightarrow> Inr (clean_ai_response reply))"

definition execute_sql ::
  "driver \<Rightarrow> aiEnglishQuery \<Rightarrow> string \<Rightarrow> world \<Rightarrow> (exn + row list) \<times> aiEnglishQuery \<times> world" where
  "execute_sql drv self sql w =
     (case db self of
        None \<Rightarrow>
          (Inl (RuntimeError
             ''No database connection configured. Call initialize_connection first.''), self, w)
      | Some d \<Rightarrow>
          (case execute drv d sql w of
             (r, d1, w1) \<Rightarrow> (r, self\<lparr>db := Some d1\<rparr>, w1)))"

text \<open>
  \<^verbatim>\<open>
    content = self.text.get("1.0", "end-1c")
    if not content.strip():
        messagebox.showwarning("Empty", "Please enter some text before submitting.")
        self.status_var.set("Nothing to submit")
        return
    self.status_var.set(f"Submitted ({len(content)} chars)")
    sql = self.generate_sql(content)
    results = self.execute_sql(sql)
    self.load_to_tkinter_grid(results)
    self.result_frame.grid()
  \<close>
\<close>

definition on_submit ::
  "(string \<Rightarrow> exn + string) \<Rightarrow> driver \<Rightarrow> aiEnglishQuery \<Rightarrow> world
     \<Rightarrow> (exn + unit) \<times> aiEnglishQuery \<times> world" where
  "on_submit send_message drv self w =
     (let content = text_widget self
      in if strip content = []
         then (Inr (),
               self\<lparr>warnings := warnings self @ [(''Empty'', ''Please enter some text before submitting.'')],
                    status_var := ''Nothing to submit''\<rparr>, w)
         else
           (let self1 = self\<lparr>status_var := ''Submitted ('' @ str_nat (length content) @ '' chars)''\<rparr>
            in case generate_sql send_message content of
                 Inl e \<Rightarrow> (Inl e, self1, w)
               | Inr sql \<Rightarrow>
                   (case execute_sql drv self1 sql w of
                      (Inl e, self2, w1) \<Rightarrow> (Inl e, self2, w1)
                    | (Inr results, self2, w1) \<Rightarrow>
                        (let self3 = load_to_tkinter_grid self2 results;
                             self4 = self3\<lparr>result_frame_gridded := True\<rparr>
                         in (Inr (), self4, w1)))))"

definition on_clear :: "aiEnglishQuery \<Rightarrow> aiEnglishQuery" where
  "on_clear self =
     on_root_resize (self\<lparr>text_widget := '''', status_var := ''Cleared'', result_frame_gridded := False\<rparr>)"

text \<open>
  The window as \<open>create_widgets\<close> leaves it: the tree with the columns \<open>name\<close> and
  \<open>population\<close> and no item, the result frame removed from the grid, a text box of
  twelve lines, the status \<open>Ready\<close>.
\<close>

definition create_widgets :: "MariaDBConnection option \<Rightarrow> int option \<Rightarrow> int \<Rightarrow> aiEnglishQuery" where
  "create_widgets db' master_height' linespace' =
     \<lparr>db = db', text_widget = '''', status_var = ''Ready'',
      result_frame_gridded = False, result_frame_ismapped = False,
      result_tree =
        \<lparr>tv_columns = [''name'', ''population''],
         tv_headings = [(''name'', ''Name''), (''population'', ''Population'')],
         tv_column_options =
           [(''name'', \<lparr>anchor = ''w'', width = 200, minwidth = 200, stretch = False\<rparr>),
            (''population'', \<lparr>anchor = ''e'', width = 120, minwidth = 120, stretch = False\<rparr>)],
         tv_items = [], tv_next_item = 0\<rparr>,
      master_height = master_height', linespace = linespace', text_height = 12,
      row0_minsize = 0, warnings = []\<rparr>"



section \<open>stt_listener: the speech listener\<close>


text \<open>
  The callbacks are functions of the caller. The model keeps whether each is set and
  records every call of one, in order; an exception a callback raises is caught at each
  call site and changes nothing else. Calls of the \<open>logging\<close> module are not recorded.
  \<open>microphone\<close> and \<open>speech_thread\<close> say whether the attribute holds an object.
\<close>

datatype notification = Transcription string | Logged string | Stopped

record STTListener =
  microphone :: bool
  is_listening :: bool
  stop_listening :: bool
  speech_thread :: bool
  callback :: bool
  log_callback :: bool
  on_stop :: bool
  calls :: "notification list"

text \<open>
  \<open>_on_transcription\<close>, \<open>_log\<close>, and the block every exit path of the loop ends with:
  \<^verbatim>\<open>
    if self.on_stop:
        try:
            self.on_stop()
        except Exception:
            logging.exception('on_stop callback raised an exception')
  \<close>
\<close>

definition on_transcription :: "string \<Rightarrow> STTListener \<Rightarrow> STTListener" where
  "on_transcription txt self =
     (if callback self then self\<lparr>calls := calls self @ [Transcription txt]\<rparr> else self)"

definition log :: "string \<Rightarrow> STTListener \<Rightarrow> STTListener" where
  "log message self =
     (if log_callback self then self\<lparr>calls := calls self @ [Logged message]\<rparr> else self)"

definition notify_stop :: "STTListener \<Rightarrow> STTListener" where
  "notify_stop self = (if on_stop self then self\<lparr>calls := calls self @ [Stopped]\<rparr> else self)"









section \<open>Notions used to state the properties of the connection\<close>

text \<open>
  A connection attempt is a call of \<open>mysql.connector.connect\<close>, recorded with its outcome.
\<close>

fun is_attempt :: "event \<Rightarrow> bool" where
  "is_attempt (ConnectOk c h) = True"
| "is_attempt (ConnectFailed c m) = True"
| "is_attempt e = False"

fun is_ok :: "event \<Rightarrow> bool" where
  "is_ok (ConnectOk c h) = True"
| "is_ok e = False"

fun is_sleep :: "event \<Rightarrow> bool" where
  "is_sleep (Sleep d) = True"
| "is_sleep e = False"

definition attempts :: "event list \<Rightarrow> nat" where
  "attempts es = length (filter is_attempt es)"

definition pace :: "event \<Rightarrow> bool" where
  "pace e = (is_attempt e \<or> is_sleep e)"

text \<open>
  \<open>paced D es\<close>: in the list \<open>es\<close> of attempts and sleeps, every attempt but the last has
  failed and is followed by exactly one sleep of \<open>D\<close> seconds and then by the next attempt;
  nothing follows the last attempt, and no sleep comes first.
\<close>

fun paced :: "int \<Rightarrow> event list \<Rightarrow> bool" where
  "paced D [] = True"
| "paced D [ConnectOk c h] = True"
| "paced D [ConnectFailed c m] = True"
| "paced D (ConnectFailed c m # Sleep d # e # rest) = (d = D \<and> paced D (e # rest))"
| "paced D es = False"

text \<open>
  \<open>alive\<close>: the object holds a session that is open and that answers at the next call.
  \<open>stale\<close>: it holds no session, or one that is no longer open.
\<close>

definition alive :: "driver \<Rightarrow> MariaDBConnection \<Rightarrow> world \<Rightarrow> bool" where
  "alive drv self w =
     (case connection self of
        None \<Rightarrow> False
      | Some h \<Rightarrow> h \<in> live w \<and> link_up drv (now w))"

definition stale :: "MariaDBConnection \<Rightarrow> world \<Rightarrow> bool" where
  "stale self w = (case connection self of None \<Rightarrow> True | Some h \<Rightarrow> h \<notin> live w)"

definition loop_post ::
  "int \<Rightarrow> nat \<Rightarrow> MariaDBConnection \<Rightarrow> world \<Rightarrow> (exn + bool) \<Rightarrow> MariaDBConnection \<Rightarrow> world
     \<Rightarrow> event list \<Rightarrow> bool" where
  "loop_post D n self w res self' w' es =
     (paced D (filter pace es) \<and> filter pace es \<noteq> [] \<and> attempts es \<le> n \<and>
      ((res = Inr False \<and> self' = self \<and> live w' \<subseteq> live w \<and> attempts es = n \<and>
          (\<forall>e\<in>set es. \<not> is_ok e)) \<or>
       (res = Inr True \<and>
          (\<exists>h es0. es = es0 @ [ConnectOk (config self) h, Cursor h] \<and>
                self' = self\<lparr>connection := Some h, cursor := Some h\<rparr> \<and> h \<in> live w' \<and>
                (\<forall>e\<in>set es0. \<not> is_ok e)))))"

text \<open>The configuration of a connection: what \<open>__init__\<close> takes and stores.\<close>

definition settings :: "MariaDBConnection \<Rightarrow> config \<times> int \<times> int" where
  "settings self = (config self, reconnect_attempts self, reconnect_delay self)"


section \<open>A scenario\<close>

text \<open>
  A connection made with the defaults of \<open>__init__\<close>, a world in which nothing has
  happened yet, a server that refuses the first two connection attempts and rejects
  every statement, and a server that accepts connections, rejects a blank statement and
  answers any other with the two countries of the specification's scenario.
\<close>

definition localhost :: MariaDBConnection where
  "localhost = init ''localhost'' 3306 ''root'' '''' None True ''utf8mb4'' 3 2"

definition w0 :: world where
  "w0 = \<lparr>live = {}, next_handle = 0,
         cur = \<lparr>with_rows = False, description = None, remaining = [], rowcount = -1\<rparr>,
         trace = []\<rparr>"

definition unreachable_twice :: driver where
  "unreachable_twice =
     \<lparr>connect_reply = (\<lambda>t. if t < 3 then Some ''unreachable'' else None),
      link_up = (\<lambda>t. True),
      execute_reply = (\<lambda>t sql. Inl (Error ''syntax error'')),
      fetchmany_limit = (\<lambda>n. if n = 0 then 1 else nat n)\<rparr>"

definition countries :: cursor_state where
  "countries =
     \<lparr>with_rows = True, description = Some [''name'', ''population''],
      remaining = [[StrVal ''Canada'', IntVal 38], [StrVal ''Chile'', IntVal 19]],
      rowcount = 2\<rparr>"

definition reachable :: driver where
  "reachable =
     \<lparr>connect_reply = (\<lambda>t. None),
      link_up = (\<lambda>t. True),
      execute_reply = (\<lambda>t sql. if strip sql = [] then Inl (Error ''Query was empty'')
                               else Inr countries),
      fetchmany_limit = (\<lambda>n. if n = 0 then 1 else nat n)\<rparr>"

text \<open>The connection and the world once the third attempt of the scenario has succeeded.\<close>

definition session0 :: MariaDBConnection where
  "session0 = localhost\<lparr>connection := Some 0, cursor := Some 0\<rparr>"

definition after_retries :: world where
  "after_retries =
     w0\<lparr>live := {0}, next_handle := 1,
        trace := [ConnectFailed (config localhost) ''unreachable'', Sleep 2,
                  ConnectFailed (config localhost) ''unreachable'', Sleep 2,
                  ConnectOk (config localhost) 0, Cursor 0]\<rparr>"

definition after_connect :: world where
  "after_connect =
     w0\<lparr>live := {0}, next_handle := 1, trace := [ConnectOk (config localhost) 0, Cursor 0]\<rparr>"

text \<open>
  The window after the user has typed a question, a translator that answers with the
  fenced statement of the specification's scenario, a server whose table is empty, the
  world after that statement has run there, and a result set whose second row lacks a key.
\<close>

definition empty_table :: driver where
  "empty_table =
     \<lparr>connect_reply = (\<lambda>t. None),
      link_up = (\<lambda>t. True),
      execute_reply = (\<lambda>t sql. Inr \<lparr>with_rows = True, description = Some [''name'', ''population''],
                                     remaining = [], rowcount = 0\<rparr>),
      fetchmany_limit = (\<lambda>n. if n = 0 then 1 else nat n)\<rparr>"

definition translator :: "string \<Rightarrow> exn + string" where
  "translator user_msg = Inr ''```sql\<newline>SELECT name, population FROM country;\<newline>```''"

definition asked :: aiEnglishQuery where
  "asked = (create_widgets (Some localhost) (Some 420) 16)\<lparr>text_widget := ''show all countries''\<rparr>"

definition emptied :: world where
  "emptied =
     after_connect\<lparr>cur := \<lparr>with_rows = True, description = Some [''name'', ''population''],
                             remaining = [], rowcount = 0\<rparr>,
                   trace := trace after_connect @
                     [Execute 0 ''SELECT name, population FROM country;'', FetchAll 0]\<rparr>"

definition two_rows :: "row list" where
  "two_rows = [[(''name'', StrVal ''Canada''), (''population'', IntVal 38)],
               [(''name'', StrVal ''Chile'')]]"


text \<open>
  The number of stop notifications a listener has made, and a listener at rest with a
  microphone, a transcription callback and a stop callback.
\<close>

definition stops :: "STTListener \<Rightarrow> nat" where
  "stops self = count_list (calls self) Stopped"


section \<open>Properties of clean_ai_response\<close>

lemma sublist_strip: "sublist (strip s) s"
  unfolding strip_def
  by (metis sublist_dropWhile sublist_rev rev_rev_ident sublist_order.dual_order.trans)

lemma dropWhile_rev_dropWhile:
  assumes "dropWhile P t = t"
  shows "dropWhile P (rev (dropWhile P (rev t))) = rev (dropWhile P (rev t))"
proof -
  define u where "u = dropWhile P (rev t)"
  show ?thesis
  proof (cases "u = []")
    case True
    then show ?thesis unfolding u_def [symmetric] by simp
  next
    case False
    have "suffix u (rev t)" unfolding u_def by (rule suffix_dropWhile)
    then obtain zs where "rev t = zs @ u" by (auto simp: suffix_def)
    then have t: "t = rev u @ rev zs" by (metis rev_append rev_rev_ident)
    from False obtain a as where ru: "rev u = a # as" by (cases "rev u") auto
    with t assms have "dropWhile P (a # as @ rev zs) = a # as @ rev zs" by simp
    then have "\<not> P a" by (metis dropWhile_eq_Cons_conv)
    with ru show ?thesis unfolding u_def [symmetric] by simp
  qed
qed

lemma strip_idem: "strip (strip s) = strip s"
  unfolding strip_def
  by (simp add: dropWhile_rev_dropWhile)

lemma sub_open_fence_no_fence: "\<not> sublist fence s \<Longrightarrow> sub_open_fence s = s"
  unfolding sub_open_fence_def by (auto dest: prefix_imp_sublist)

lemma match_close_fence_no_fence:
  assumes "\<not> sublist fence s"
  shows "match_close_fence s = None"
proof -
  have "\<not> prefix fence s"
    using assms prefix_imp_sublist by blast
  moreover have "\<not> prefix (newline # fence) s"
  proof
    assume "prefix (newline # fence) s"
    then obtain r where "s = (newline # fence) @ r" by (auto simp: prefix_def)
    then have "s = [newline] @ fence @ r" by simp
    then have "sublist fence s" unfolding sublist_def by blast
    with assms show False by simp
  qed
  ultimately show ?thesis by (simp add: match_close_fence_def)
qed

lemma sub_close_fence_no_fence: "\<not> sublist fence s \<Longrightarrow> sub_close_fence s = s"
proof (induction s)
  case Nil
  then show ?case by simp
next
  case (Cons c cs)
  then have "\<not> sublist fence cs"
    by (meson sublist_Cons_right)
  with Cons show ?case
    by (simp add: match_close_fence_no_fence)
qed

lemma no_fence_strip: "\<not> sublist fence s \<Longrightarrow> \<not> sublist fence (strip s)"
  using sublist_strip sublist_order.order_trans by blast

text \<open>
  Claim C3, as amended. The fenced example \<^verbatim>\<open>```sql\nSELECT 1;\n```\<close> is cleaned to
  \<^verbatim>\<open>SELECT 1;\<close>. An input that contains no run of three backticks is returned with
  its leading and trailing whitespace stripped, and with nothing else changed; it is
  returned unchanged exactly when it has no whitespace at either end.
\<close>

theorem clean_ai_response_fence_free:
  "clean_ai_response ''```sql\<newline>SELECT 1;\<newline>```'' = ''SELECT 1;'' \<and>
   (\<not> sublist fence s \<longrightarrow>
      clean_ai_response s = strip s \<and> (clean_ai_response s = s \<longleftrightarrow> strip s = s))"
proof -
  have ex: "clean_ai_response ''```sql\<newline>SELECT 1;\<newline>```'' = ''SELECT 1;''"
    by code_simp
  have "clean_ai_response s = strip s" if nf: "\<not> sublist fence s"
  proof -
    have "sub_open_fence (strip s) = strip s"
      using nf by (simp add: sub_open_fence_no_fence no_fence_strip)
    then have "clean_ai_response s = sub_close_fence (strip s)"
      by (simp add: clean_ai_response_def strip_idem)
    then show ?thesis
      using nf by (simp add: sub_close_fence_no_fence no_fence_strip)
  qed
  with ex show ?thesis by simp
qed

theorem clean_ai_response_fence_free_witness:
  "\<not> sublist fence ''  SELECT 1; '' \<and>
   clean_ai_response ''  SELECT 1; '' = ''SELECT 1;'' \<and>
   \<not> sublist fence ''SELECT 1;'' \<and>
   clean_ai_response ''SELECT 1;'' = ''SELECT 1;''"
proof -
  have a: "\<not> sublist fence ''  SELECT 1; ''" by code_simp
  have b: "\<not> sublist fence ''SELECT 1;''" by code_simp
  have c: "strip ''  SELECT 1; '' = ''SELECT 1;''" by code_simp
  have d: "strip ''SELECT 1;'' = ''SELECT 1;''" by code_simp
  show ?thesis
    using a b c d
      clean_ai_response_fence_free [of "''  SELECT 1; ''"]
      clean_ai_response_fence_free [of "''SELECT 1;''"]
    by simp
qed

text \<open>
  Claim C3 as stated fails: the input \<^verbatim>\<open>" SELECT 1;"\<close> contains no fence, and the
  leading blank is removed by \<open>strip\<close>.
\<close>

theorem clean_ai_response_identity_counterexample:
  "\<not> sublist fence '' SELECT 1;'' \<and> clean_ai_response '' SELECT 1;'' \<noteq> '' SELECT 1;''"
  by code_simp



section \<open>Properties of the connection\<close>

lemma stale_not_alive: "stale self w \<Longrightarrow> \<not> alive drv self w"
  by (auto simp: stale_def alive_def split: option.splits)

lemma attempt_alive:
  "alive drv self w \<Longrightarrow>
   connect_attempt drv self w = (Inr (), self, emit (IsConnected (the (connection self))) w)"
  by (auto simp: alive_def connect_attempt_def is_connected_def split: option.splits)

lemma attempt_fail:
  assumes "\<not> alive drv self w" and "connect_attempt drv self w = (Inl err, self1, w1)"
  shows "self1 = self \<and> stale self w1 \<and> live w1 \<subseteq> live w \<and>
         (\<exists>pre. trace w1 = trace w @ pre @ [ConnectFailed (config self) err] \<and> filter pace pre = []
                 \<and> (\<forall>e\<in>set pre. \<not> is_attempt e))"
  using assms
  by (auto simp: alive_def stale_def connect_attempt_def is_connected_def mysql_connect_def
      connection_close_def emit_def now_def pace_def connection_cursor_def Let_def
      split: option.splits if_splits prod.splits sum.splits)

lemma attempt_ok:
  assumes "\<not> alive drv self w" and "connect_attempt drv self w = (Inr u, self1, w1)"
  shows "\<exists>pre h. trace w1 = trace w @ pre @ [ConnectOk (config self) h, Cursor h] \<and> filter pace pre = []
             \<and> (\<forall>e\<in>set pre. \<not> is_attempt e)
             \<and> self1 = self\<lparr>connection := Some h, cursor := Some h\<rparr> \<and> h \<in> live w1"
  using assms
  by (auto simp: alive_def stale_def connect_attempt_def is_connected_def mysql_connect_def
      connection_close_def emit_def now_def pace_def connection_cursor_def Let_def
      split: option.splits if_splits prod.splits sum.splits)


lemma attempts_append [simp]: "attempts (xs @ ys) = attempts xs + attempts ys"
  by (simp add: attempts_def)

lemma attempts_none: "\<forall>e\<in>set pre. \<not> is_attempt e \<Longrightarrow> attempts pre = 0"
  by (simp add: attempts_def)

lemma is_ok_attempt: "is_ok e \<Longrightarrow> is_attempt e"
  by (cases e) auto

lemma paced_step:
  assumes "paced D ps" "ps \<noteq> []"
  shows "paced D (ConnectFailed c m # Sleep D # ps)"
  using assms by (cases ps) auto

lemma loop_post_last_ok:
  assumes "trace w1 = trace w @ pre @ [ConnectOk (config self) h, Cursor h]"
    "filter pace pre = []" "\<forall>e\<in>set pre. \<not> is_attempt e"
    "self1 = self\<lparr>connection := Some h, cursor := Some h\<rparr>" "h \<in> live w1" "0 < n"
  shows "loop_post D n self w (Inr True) self1 w1 (pre @ [ConnectOk (config self) h, Cursor h])"
  using assms unfolding loop_post_def
  by (auto simp: pace_def attempts_none attempts_def dest: is_ok_attempt)

lemma loop_post_last_fail:
  assumes "filter pace pre = []" "\<forall>e\<in>set pre. \<not> is_attempt e" "live w1 \<subseteq> live w"
  shows "loop_post D (Suc 0) self w (Inr False) self w1 (pre @ [ConnectFailed (config self) err])"
  using assms unfolding loop_post_def
  by (auto simp: pace_def attempts_none attempts_def dest: is_ok_attempt)

lemma loop_post_step:
  assumes "loop_post D n self w2 res self' w' es"
    "filter pace pre = []" "\<forall>e\<in>set pre. \<not> is_attempt e" "live w2 \<subseteq> live w"
  shows "loop_post D (Suc n) self w res self' w' (pre @ [ConnectFailed (config self) err] @ [Sleep D] @ es)"
proof -
  from assms(1) have p: "paced D (filter pace es)" "filter pace es \<noteq> []"
    by (auto simp: loop_post_def)
  have f: "filter pace (pre @ [ConnectFailed (config self) err] @ [Sleep D] @ es)
           = ConnectFailed (config self) err # Sleep D # filter pace es"
    using assms(2) by (simp add: pace_def)
  have a: "attempts (pre @ [ConnectFailed (config self) err] @ [Sleep D] @ es) = Suc (attempts es)"
    using assms(3) by (simp add: attempts_none) (simp add: attempts_def)
  have nok: "\<forall>e\<in>set pre. \<not> is_ok e"
    using assms(3) is_ok_attempt by blast
  from assms(1) consider
    (F) "res = Inr False" "self' = self" "live w' \<subseteq> live w2" "attempts es = n" "\<forall>e\<in>set es. \<not> is_ok e"
    | (T) h es0 where "res = Inr True" "es = es0 @ [ConnectOk (config self) h, Cursor h]"
        "self' = self\<lparr>connection := Some h, cursor := Some h\<rparr>" "h \<in> live w'" "\<forall>e\<in>set es0. \<not> is_ok e"
    unfolding loop_post_def by blast
  then show ?thesis
  proof cases
    case F
    with assms(1,4) nok show ?thesis
      unfolding loop_post_def f a using paced_step [OF p] by auto
  next
    case T
    have "\<forall>e\<in>set (pre @ [ConnectFailed (config self) err] @ [Sleep D] @ es0). \<not> is_ok e"
      using T(5) nok by auto
    moreover have "pre @ [ConnectFailed (config self) err] @ [Sleep D] @ es
        = (pre @ [ConnectFailed (config self) err] @ [Sleep D] @ es0) @ [ConnectOk (config self) h, Cursor h]"
      using T(2) by simp
    ultimately have "\<exists>h es1. pre @ [ConnectFailed (config self) err] @ [Sleep D] @ es
           = es1 @ [ConnectOk (config self) h, Cursor h] \<and>
           self' = self\<lparr>connection := Some h, cursor := Some h\<rparr> \<and> h \<in> live w' \<and>
           (\<forall>e\<in>set es1. \<not> is_ok e)"
      using T(3,4) by blast
    moreover have "attempts es \<le> n" using assms(1) by (simp add: loop_post_def)
    ultimately show ?thesis
      unfolding loop_post_def f a using paced_step [OF p] T(1) by simp
  qed
qed

lemma connect_loop_not_alive:
  assumes D: "0 \<le> reconnect_delay self"
  shows "\<not> alive drv self w \<Longrightarrow> i \<le> reconnect_attempts self \<Longrightarrow>
         n = nat (reconnect_attempts self - i) \<Longrightarrow>
         connect_loop drv [i..reconnect_attempts self] self w = (res, self', w') \<Longrightarrow>
         \<exists>es. trace w' = trace w @ es \<and>
              loop_post (reconnect_delay self) (Suc n) self w res self' w' es"
proof (induction n arbitrary: i w)
  case 0
  then have i: "i = reconnect_attempts self" by simp
  then have l: "[i..reconnect_attempts self] = [i]" by simp
  obtain r self1 w1 where a: "connect_attempt drv self w = (r, self1, w1)"
    by (cases "connect_attempt drv self w") auto
  show ?case
  proof (cases r)
    case (Inl err)
    from attempt_fail [OF 0(1) a [unfolded Inl]] obtain pre where f:
      "self1 = self" "live w1 \<subseteq> live w" "trace w1 = trace w @ pre @ [ConnectFailed (config self) err]"
      "filter pace pre = []" "\<forall>e\<in>set pre. \<not> is_attempt e"
      by blast
    from a 0(4) l i Inl f(1) have res: "res = Inr False" "self' = self" "w' = w1"
      by auto
    with f show ?thesis
      using loop_post_last_fail [of pre w1 w "reconnect_delay self" self err] by auto
  next
    case (Inr u)
    with a 0 l have res: "res = Inr True" "self' = self1" "w' = w1"
      by auto
    from attempt_ok [OF 0(1) a [unfolded Inr]] obtain pre h where
      "trace w1 = trace w @ pre @ [ConnectOk (config self) h, Cursor h]" "filter pace pre = []"
      "\<forall>e\<in>set pre. \<not> is_attempt e" "self1 = self\<lparr>connection := Some h, cursor := Some h\<rparr>" "h \<in> live w1"
      by blast
    with res show ?thesis
      using loop_post_last_ok [of w1 w pre self h self1 "Suc 0" "reconnect_delay self"] by auto
  qed
next
  case (Suc n)
  then have i: "i < reconnect_attempts self" by simp
  then have l: "[i..reconnect_attempts self] = i # [i + 1..reconnect_attempts self]"
    by (simp add: upto_rec1)
  obtain r self1 w1 where a: "connect_attempt drv self w = (r, self1, w1)"
    by (cases "connect_attempt drv self w") auto
  show ?case
  proof (cases r)
    case (Inl err)
    from attempt_fail [OF Suc(2) a [unfolded Inl]] obtain pre where f:
      "self1 = self" "stale self w1" "live w1 \<subseteq> live w"
      "trace w1 = trace w @ pre @ [ConnectFailed (config self) err]"
      "filter pace pre = []" "\<forall>e\<in>set pre. \<not> is_attempt e"
      by blast
    define w2 where "w2 = emit (Sleep (reconnect_delay self)) w1"
    have s: "time_sleep (reconnect_delay self) w1 = Inr w2"
      using D by (simp add: time_sleep_def w2_def)
    have rec: "connect_loop drv [i + 1..reconnect_attempts self] self w2 = (res, self', w')"
      using Suc(5) a Inl i f(1) s unfolding l by simp
    have "stale self w2" using f(2) by (simp add: w2_def stale_def emit_def split: option.splits)
    then have na: "\<not> alive drv self w2" by (rule stale_not_alive)
    have i1: "i + 1 \<le> reconnect_attempts self" using i by simp
    have n1: "n = nat (reconnect_attempts self - (i + 1))" using Suc(4) by linarith
    from Suc(1) [OF na i1 n1 rec] obtain es where
      es: "trace w' = trace w2 @ es" "loop_post (reconnect_delay self) (Suc n) self w2 res self' w' es"
      by blast
    have lw: "live w2 \<subseteq> live w" using f(3) by (simp add: w2_def emit_def)
    have "trace w' = trace w @ (pre @ [ConnectFailed (config self) err] @ [Sleep (reconnect_delay self)] @ es)"
      using es(1) f(4) by (simp add: w2_def emit_def)
    with loop_post_step [OF es(2) f(5) f(6) lw, of err] show ?thesis
      by blast
  next
    case (Inr u)
    with a Suc l have res: "res = Inr True" "self' = self1" "w' = w1"
      by auto
    from attempt_ok [OF Suc(2) a [unfolded Inr]] obtain pre h where
      "trace w1 = trace w @ pre @ [ConnectOk (config self) h, Cursor h]" "filter pace pre = []"
      "\<forall>e\<in>set pre. \<not> is_attempt e" "self1 = self\<lparr>connection := Some h, cursor := Some h\<rparr>" "h \<in> live w1"
      by blast
    with res show ?thesis
      using loop_post_last_ok [of w1 w pre self h self1 "Suc (Suc n)" "reconnect_delay self"] by auto
  qed
qed




lemma connect_alive:
  assumes "0 \<le> reconnect_attempts self" "alive drv self w"
  shows "connect drv self w = (Inr True, self, emit (IsConnected (the (connection self))) w)"
proof -
  have "[0..reconnect_attempts self] = 0 # [0 + 1..reconnect_attempts self]"
    using assms(1) by (simp add: upto_rec1)
  then show ?thesis
    unfolding connect_def using attempt_alive [OF assms(2)] by simp
qed

text \<open>
  Claim C1. Let \<open>R = reconnect_attempts\<close> be a retry count and \<open>D = reconnect_delay\<close>
  a delay, neither negative, and let \<open>es\<close> be the calls that \<open>_connect()\<close> makes.
  \<^item> It makes at most \<open>R + 1\<close> connection attempts.
  \<^item> The attempts and the sleeps alternate (\<open>paced\<close>): every attempt but the last has
    failed and is followed by one sleep of \<open>D\<close>; nothing follows a successful attempt but
    the creation of its cursor.
  \<^item> It returns true or false; when the session it holds is still live it returns true
    at once, with no attempt and the object unchanged.
  \<^item> When it returns true otherwise, the last attempt has succeeded, and its session and
    cursor are stored.
  \<^item> When it returns false, exactly \<open>R + 1\<close> attempts were made and all have failed;
    the object is unchanged and no session is open that was not open before.
\<close>

theorem connect_retry:
  assumes R: "0 \<le> reconnect_attempts self" and D: "0 \<le> reconnect_delay self"
    and c: "connect drv self w = (res, self', w')"
  shows "\<exists>es. trace w' = trace w @ es \<and>
           attempts es \<le> nat (reconnect_attempts self + 1) \<and>
           paced (reconnect_delay self) (filter pace es) \<and>
           (res = Inr True \<or> res = Inr False) \<and>
           (alive drv self w \<longrightarrow>
              res = Inr True \<and> self' = self \<and> live w' = live w \<and> attempts es = 0) \<and>
           (res = Inr True \<and> \<not> alive drv self w \<longrightarrow>
              (\<exists>h es0. es = es0 @ [ConnectOk (config self) h, Cursor h] \<and>
                 (\<forall>e\<in>set es0. \<not> is_ok e) \<and>
                 self' = self\<lparr>connection := Some h, cursor := Some h\<rparr> \<and> h \<in> live w')) \<and>
           (res = Inr False \<longrightarrow>
              attempts es = nat (reconnect_attempts self + 1) \<and> (\<forall>e\<in>set es. \<not> is_ok e) \<and>
              self' = self \<and> live w' \<subseteq> live w)"
proof (cases "alive drv self w")
  case True
  from connect_alive [OF R True] c
  have "res = Inr True" "self' = self" "w' = emit (IsConnected (the (connection self))) w"
    by auto
  then have "trace w' = trace w @ [IsConnected (the (connection self))]" "live w' = live w"
    by (auto simp: emit_def)
  with True \<open>res = Inr True\<close> \<open>self' = self\<close> show ?thesis
    by (simp add: attempts_def pace_def)
next
  case False
  have n: "Suc (nat (reconnect_attempts self - 0)) = nat (reconnect_attempts self + 1)"
    using R by simp
  from connect_loop_not_alive [OF D False R refl, of res self' w'] c
  obtain es where es: "trace w' = trace w @ es"
    "loop_post (reconnect_delay self) (nat (reconnect_attempts self + 1)) self w res self' w' es"
    unfolding connect_def n by auto
  from es(2) have "attempts es \<le> nat (reconnect_attempts self + 1)"
    "paced (reconnect_delay self) (filter pace es)"
    "res = Inr True \<or> res = Inr False"
    by (auto simp: loop_post_def)
  moreover from es(2) have "res = Inr True \<longrightarrow>
      (\<exists>h es0. es = es0 @ [ConnectOk (config self) h, Cursor h] \<and>
                 (\<forall>e\<in>set es0. \<not> is_ok e) \<and>
                 self' = self\<lparr>connection := Some h, cursor := Some h\<rparr> \<and> h \<in> live w')"
    unfolding loop_post_def by blast
  moreover from es(2) have "res = Inr False \<longrightarrow>
              attempts es = nat (reconnect_attempts self + 1) \<and> (\<forall>e\<in>set es. \<not> is_ok e) \<and>
              self' = self \<and> live w' \<subseteq> live w"
    unfolding loop_post_def by blast
  ultimately show ?thesis
    using es(1) False by blast
qed

lemma connect_unreachable_twice:
  "connect unreachable_twice localhost w0 = (Inr True, session0, after_retries)"
  by (simp add: connect_def unreachable_twice_def localhost_def w0_def init_def connect_attempt_def
      mysql_connect_def now_def emit_def upto.simps time_sleep_def connection_cursor_def
      session0_def after_retries_def)

lemma connect_reachable:
  "connect reachable localhost w0 = (Inr True, session0, after_connect)"
  by (simp add: connect_def reachable_def localhost_def w0_def init_def connect_attempt_def
      mysql_connect_def now_def emit_def upto.simps connection_cursor_def
      session0_def after_connect_def)

theorem connect_retry_witness:
  "0 \<le> reconnect_attempts localhost \<and> 0 \<le> reconnect_delay localhost \<and>
   fst (connect unreachable_twice localhost w0) = Inr True \<and>
   attempts (trace (snd (snd (connect unreachable_twice localhost w0)))) \<le> 4 \<and>
   paced 2 (filter pace (trace (snd (snd (connect unreachable_twice localhost w0)))))"
proof -
  have R: "0 \<le> reconnect_attempts localhost" and D: "0 \<le> reconnect_delay localhost"
    by (simp_all add: localhost_def init_def)
  have v: "reconnect_attempts localhost = 3" "reconnect_delay localhost = 2"
    by (simp_all add: localhost_def init_def)
  obtain res self' w' where c: "connect unreachable_twice localhost w0 = (res, self', w')"
    by (cases "connect unreachable_twice localhost w0") auto
  from connect_retry [OF R D c] obtain es where
    es: "trace w' = trace w0 @ es" "attempts es \<le> nat (reconnect_attempts localhost + 1)"
      "paced (reconnect_delay localhost) (filter pace es)"
    by blast
  from es(1) have "es = trace w'" by (simp add: w0_def)
  with es(2,3) v have "attempts (trace w') \<le> 4" "paced 2 (filter pace (trace w'))"
    by simp_all
  moreover have "res = Inr True"
    using c connect_unreachable_twice by simp
  ultimately show ?thesis
    using R D c by simp
qed




lemma blank_strip:
  assumes "\<forall>c\<in>set sql. isspace c"
  shows "strip sql = []"
proof -
  have h: "dropWhile isspace sql = []" using assms by simp
  show ?thesis unfolding strip_def h by simp
qed

text \<open>
  Claim C4. For a statement that is empty or consists of whitespace only, \<open>execute\<close> and
  \<open>execute_modify\<close> raise \<open>ValueError("Empty SQL statement")\<close>; the connection object
  and the world are unchanged, so no connection attempt and no driver call has been made.
\<close>

theorem blank_statement_rejected:
  assumes "\<forall>c\<in>set sql. isspace c"
  shows "execute drv self sql w = (Inl (ValueError ''Empty SQL statement''), self, w) \<and>
         execute_modify drv self sql w = (Inl (ValueError ''Empty SQL statement''), self, w)"
  using blank_strip [OF assms] by (simp add: execute_def execute_modify_def)

theorem blank_statement_rejected_witness:
  "strip [CHR '' '', CHR 0x09, newline] = [] \<and>
   execute unreachable_twice localhost [CHR '' '', CHR 0x09, newline] w0
     = (Inl (ValueError ''Empty SQL statement''), localhost, w0) \<and>
   execute_modify unreachable_twice localhost [] w0
     = (Inl (ValueError ''Empty SQL statement''), localhost, w0)"
proof -
  have a: "\<forall>c\<in>set [CHR '' '', CHR 0x09, newline]. isspace c"
    by (simp add: isspace_def newline_def)
  have b: "\<forall>c\<in>set ([] :: string). isspace c"
    by simp
  have s: "strip [CHR '' '', CHR 0x09, newline] = []"
    by code_simp
  show ?thesis
    using s blank_statement_rejected [OF a, of unreachable_twice localhost w0]
      blank_statement_rejected [OF b, of unreachable_twice localhost w0]
    by simp
qed


lemma settings_attempt:
  "connect_attempt drv self w = (r, self1, w1) \<Longrightarrow> settings self1 = settings self"
  by (auto simp: connect_attempt_def settings_def Let_def
      split: option.splits prod.splits sum.splits if_splits)

lemma settings_connect_loop:
  "connect_loop drv as self w = (r, self1, w1) \<Longrightarrow> settings self1 = settings self"
proof (induction as arbitrary: self w)
  case Nil
  then show ?case by simp
next
  case (Cons a as)
  obtain r0 self0 w0 where a: "connect_attempt drv self w = (r0, self0, w0)"
    by (cases "connect_attempt drv self w") auto
  note s = settings_attempt [OF a]
  show ?case
  proof (cases r0)
    case (Inr u)
    with Cons.prems a s show ?thesis by simp
  next
    case (Inl err)
    show ?thesis
    proof (cases "time_sleep (reconnect_delay self0) w0")
      case (Inl e)
      with Cons.prems a \<open>r0 = Inl err\<close> s show ?thesis
        by (simp split: if_splits)
    next
      case (Inr w2)
      with Cons.prems a \<open>r0 = Inl err\<close> s Cons.IH [of self0 w2] show ?thesis
        by (auto split: if_splits)
    qed
  qed
qed

lemma settings_connect: "settings (fst (snd (connect drv self w))) = settings self"
  using settings_connect_loop [of drv "[0..reconnect_attempts self]" self w]
  by (cases "connect drv self w") (simp add: connect_def)

lemma settings_get_cursor: "settings (fst (snd (get_cursor drv body self w))) = settings self"
proof -
  obtain r self1 w1 where c: "connect drv self w = (r, self1, w1)"
    by (cases "connect drv self w") auto
  with settings_connect [of drv self w] have "settings self1 = settings self" by simp
  with c show ?thesis
    by (auto simp: get_cursor_def split: sum.splits prod.splits option.splits)
qed

lemma settings_close: "settings (fst (snd (close drv self w))) = settings self"
  by (simp add: close_def split: option.splits prod.splits)

text \<open>
  Claim C9. \<open>__init__\<close> stores its arguments in \<open>config\<close>, \<open>reconnect_attempts\<close> and
  \<open>reconnect_delay\<close>, and each of \<open>_connect\<close>, \<open>execute\<close>, \<open>execute_modify\<close>,
  \<open>query_generator\<close> and \<open>close\<close> leaves the three as it found them, whatever the
  driver replies and whether the method returns or raises.
\<close>

theorem configuration_immutable:
  "settings (init h p u pw d ac cs R D) =
     (\<lparr>host = h, port = p, user = u, password = pw, database = d, autocommit = ac,
       charset = cs, use_unicode = True, get_warnings = True, raise_on_warnings = False,
       connection_timeout = 10\<rparr>, R, D) \<and>
   settings (fst (snd (connect drv self w))) = settings self \<and>
   settings (fst (snd (execute drv self sql w))) = settings self \<and>
   settings (fst (snd (execute_modify drv self sql w))) = settings self \<and>
   settings (fst (snd (query_generator drv self sql chunk_size w))) = settings self \<and>
   settings (fst (snd (close drv self w))) = settings self"
proof -
  have "settings (init h p u pw d ac cs R D) =
     (\<lparr>host = h, port = p, user = u, password = pw, database = d, autocommit = ac,
       charset = cs, use_unicode = True, get_warnings = True, raise_on_warnings = False,
       connection_timeout = 10\<rparr>, R, D)"
    by (simp add: settings_def init_def)
  moreover have "settings (fst (snd (execute drv self sql w))) = settings self"
    by (simp add: execute_def settings_get_cursor)
  moreover have "settings (fst (snd (execute_modify drv self sql w))) = settings self"
    by (simp add: execute_modify_def settings_get_cursor)
  moreover have "settings (fst (snd (query_generator drv self sql chunk_size w))) = settings self"
    by (simp add: query_generator_def settings_get_cursor)
  ultimately show ?thesis
    by (simp add: settings_connect settings_close)
qed

text \<open>
  Claim C8. In any state \<open>close()\<close> returns without raising and leaves the object as
  it is; afterwards the object holds no open session. A second call right after the
  first does not raise either and does nothing: it only asks \<open>is_connected()\<close> once when
  the object holds a connection, and it closes nothing.
\<close>

theorem close_idempotent:
  "(case close drv self w of
      (r1, self1, w1) \<Rightarrow>
        (case close drv self1 w1 of
           (r2, self2, w2) \<Rightarrow>
             r1 = Inr () \<and> r2 = Inr () \<and> self1 = self \<and> self2 = self \<and>
             stale self w1 \<and>
             live w2 = live w1 \<and> next_handle w2 = next_handle w1 \<and> cur w2 = cur w1 \<and>
             trace w2 = trace w1 @ (case connection self of None \<Rightarrow> [] | Some h \<Rightarrow> [IsConnected h])))"
  by (auto simp: close_def is_connected_def connection_close_def emit_def stale_def Let_def
      split: option.splits prod.splits)




lemma attempt_connection:
  "connect_attempt drv self w = (Inr u, self1, w1) \<Longrightarrow> connection self1 \<noteq> None"
  by (auto simp: connect_attempt_def is_connected_def Let_def
      split: option.splits prod.splits sum.splits if_splits)

lemma connect_loop_true_connection:
  "connect_loop drv as self w = (Inr True, self1, w1) \<Longrightarrow> connection self1 \<noteq> None"
proof (induction as arbitrary: self w)
  case Nil
  then show ?case by simp
next
  case (Cons a as)
  obtain r0 self0 w0 where a: "connect_attempt drv self w = (r0, self0, w0)"
    by (cases "connect_attempt drv self w") auto
  show ?case
  proof (cases r0)
    case (Inr u)
    with Cons.prems a attempt_connection [of drv self w u self0 w0] show ?thesis by simp
  next
    case (Inl err)
    with Cons.prems a Cons.IH show ?thesis
      by (auto split: if_splits sum.splits)
  qed
qed

lemma connect_true_connection:
  "connect drv self w = (Inr True, self1, w1) \<Longrightarrow> \<exists>h. connection self1 = Some h"
  using connect_loop_true_connection [of drv "[0..reconnect_attempts self]" self w self1 w1]
  by (auto simp: connect_def)

lemma get_cursor_body_error:
  assumes "connect drv self w = (Inr True, self1, w1)"
    and "body self1 (cursor self1) w1 = (Inl err, w2)"
  shows "\<exists>h. connection self1 = Some h \<and>
             get_cursor drv body self w = (Inl err, self1, emit (Rollback h) w2)"
proof -
  from connect_true_connection [OF assms(1)] obtain h where "connection self1 = Some h" ..
  with assms show ?thesis
    by (simp add: get_cursor_def connection_rollback_def)
qed

text \<open>
  Claim C5. Let \<open>_connect()\<close> have succeeded and let the driver raise \<open>err\<close> when the
  cursor executes the statement. Then \<open>execute\<close> and \<open>execute_modify\<close> (for a statement
  that is not blank) and \<open>query_generator\<close> raise the same \<open>err\<close>, and after the
  connection the driver has seen exactly two calls: the one \<open>execute\<close> of the
  statement and the \<open>rollback\<close>. The statement is not executed a second time.
\<close>

theorem driver_error_rolls_back:
  assumes ok: "connect drv self w = (Inr True, self1, w1)"
    and c: "cursor self1 = Some c"
    and err: "execute_reply drv (now w1) sql = Inl err"
  shows "\<exists>h. connection self1 = Some h \<and>
           (strip sql \<noteq> [] \<longrightarrow>
              execute drv self sql w
                = (Inl err, self1, w1\<lparr>trace := trace w1 @ [Execute c sql, Rollback h]\<rparr>) \<and>
              execute_modify drv self sql w
                = (Inl err, self1, w1\<lparr>trace := trace w1 @ [Execute c sql, Rollback h]\<rparr>)) \<and>
           query_generator drv self sql chunk_size w
             = (Inl err, self1, w1\<lparr>trace := trace w1 @ [Execute c sql, Rollback h]\<rparr>)"
proof -
  have x: "cursor_execute drv c sql w1 = (Inl err, emit (Execute c sql) w1)"
    using err by (simp add: cursor_execute_def)
  have b1: "execute_body drv sql self1 (cursor self1) w1 = (Inl err, emit (Execute c sql) w1)"
    using c x by (simp add: execute_body_def)
  have b2: "execute_modify_body drv sql self1 (cursor self1) w1 = (Inl err, emit (Execute c sql) w1)"
    using c x by (simp add: execute_modify_body_def)
  have b3: "query_generator_body drv sql chunk_size self1 (cursor self1) w1
              = (Inl err, emit (Execute c sql) w1)"
    using c x by (simp add: query_generator_body_def)
  from connect_true_connection [OF ok] obtain h where h: "connection self1 = Some h" ..
  have e: "emit (Rollback h) (emit (Execute c sql) w1)
             = w1\<lparr>trace := trace w1 @ [Execute c sql, Rollback h]\<rparr>"
    by (simp add: emit_def)
  from get_cursor_body_error [where body = "execute_body drv sql", OF ok b1]
    get_cursor_body_error [where body = "execute_modify_body drv sql", OF ok b2]
    get_cursor_body_error [where body = "query_generator_body drv sql chunk_size", OF ok b3] h e
  show ?thesis
    by (simp add: execute_def execute_modify_def query_generator_def)
qed

theorem driver_error_rolls_back_witness:
  "connect unreachable_twice localhost w0 = (Inr True, session0, after_retries) \<and>
   strip ''SELEC 1'' \<noteq> [] \<and>
   execute unreachable_twice localhost ''SELEC 1'' w0 =
     (Inl (Error ''syntax error''), session0,
      after_retries\<lparr>trace := trace after_retries @ [Execute 0 ''SELEC 1'', Rollback 0]\<rparr>) \<and>
   execute_modify unreachable_twice localhost ''SELEC 1'' w0 =
     (Inl (Error ''syntax error''), session0,
      after_retries\<lparr>trace := trace after_retries @ [Execute 0 ''SELEC 1'', Rollback 0]\<rparr>) \<and>
   query_generator unreachable_twice localhost ''SELEC 1'' 1000 w0 =
     (Inl (Error ''syntax error''), session0,
      after_retries\<lparr>trace := trace after_retries @ [Execute 0 ''SELEC 1'', Rollback 0]\<rparr>)"
proof -
  have ok: "connect unreachable_twice localhost w0 = (Inr True, session0, after_retries)"
    by (rule connect_unreachable_twice)
  have c: "cursor session0 = Some 0"
    by (simp add: session0_def)
  have e: "execute_reply unreachable_twice (now after_retries) ''SELEC 1'' = Inl (Error ''syntax error'')"
    by (simp add: unreachable_twice_def)
  have s: "strip ''SELEC 1'' \<noteq> []"
    by code_simp
  have h: "connection session0 = Some 0"
    by (simp add: session0_def)
  from driver_error_rolls_back [OF ok c e, of 1000] s ok h show ?thesis
    by auto
qed


lemma trace_yield_all: "\<exists>es. trace (yield_all columns rows w) = trace w @ es"
  unfolding yield_all_def
proof (induction rows arbitrary: w)
  case Nil
  then show ?case by simp
next
  case (Cons r rows)
  from Cons [of "emit (Yield (py_dict (zip columns r))) w"] show ?case
    by (auto simp: emit_def)
qed

lemma fetch_loop_trace: "\<exists>es. trace (snd (fetch_loop drv c n w)) = trace w @ es"
proof (induction drv c n w rule: fetch_loop.induct)
  case (1 drv c chunk_size w)
  obtain rows w1 where f: "cursor_fetchmany drv c chunk_size w = (rows, w1)"
    by (cases "cursor_fetchmany drv c chunk_size w") auto
  then have t1: "trace w1 = trace w @ [FetchMany c chunk_size]"
    by (auto simp: cursor_fetchmany_def Let_def emit_def)
  show ?case
  proof (cases "rows = []")
    case True
    with f t1 show ?thesis by (subst fetch_loop.simps) simp
  next
    case False
    show ?thesis
    proof (cases "description (cur w1)")
      case None
      with f t1 False show ?thesis by (subst fetch_loop.simps) simp
    next
      case (Some columns)
      from "1.IH" [OF f [symmetric] False Some]
      obtain es where "trace (snd (fetch_loop drv c chunk_size (yield_all columns rows w1)))
                        = trace (yield_all columns rows w1) @ es" ..
      moreover obtain ys where "trace (yield_all columns rows w1) = trace w1 @ ys"
        using trace_yield_all by blast
      ultimately show ?thesis
        using f t1 False Some by (subst fetch_loop.simps) simp
    qed
  qed
qed

text \<open>
  Claim C10. For a statement that is empty or consists of whitespace only,
  \<open>query_generator\<close> raises no empty-statement error of its own: it calls \<open>_connect()\<close>
  as for any other statement; when that fails it raises what \<open>get_cursor\<close> raises, and
  when it succeeds the next call the driver sees is \<open>execute\<close> with the blank statement.
\<close>

theorem query_generator_forwards_blank:
  assumes "\<forall>ch\<in>set sql. isspace ch"
  shows "(case connect drv self w of
            (Inl e, self1, w1) \<Rightarrow> query_generator drv self sql chunk_size w = (Inl e, self1, w1)
          | (Inr False, self1, w1) \<Rightarrow>
              query_generator drv self sql chunk_size w
                = (Inl (ConnectionError ''Failed to connect to MariaDB''), self1, w1)
          | (Inr True, self1, w1) \<Rightarrow>
              (case cursor self1 of
                 None \<Rightarrow>
                   fst (query_generator drv self sql chunk_size w)
                     = Inl (AttributeError ''NoneType object has no attribute execute'')
               | Some c \<Rightarrow>
                   (\<exists>es. trace (snd (snd (query_generator drv self sql chunk_size w)))
                           = trace w1 @ Execute c sql # es)))"
proof -
  obtain r self1 w1 where c: "connect drv self w = (r, self1, w1)"
    by (cases "connect drv self w") auto
  show ?thesis
  proof (cases r)
    case (Inl e)
    with c show ?thesis by (simp add: query_generator_def get_cursor_def)
  next
    case (Inr ok)
    show ?thesis
    proof (cases ok)
      case False
      with c Inr show ?thesis by (simp add: query_generator_def get_cursor_def)
    next
      case True
      with c Inr have ct: "connect drv self w = (Inr True, self1, w1)" by simp
      from connect_true_connection [OF ct] obtain h where h: "connection self1 = Some h" ..
      show ?thesis
      proof (cases "cursor self1")
        case None
        with ct h show ?thesis
          by (simp add: query_generator_def get_cursor_def query_generator_body_def)
      next
        case (Some cu)
        obtain rb wb where b: "query_generator_body drv sql chunk_size self1 (Some cu) w1 = (rb, wb)"
          by (cases "query_generator_body drv sql chunk_size self1 (Some cu) w1") auto
        have "\<exists>es. trace wb = trace w1 @ Execute cu sql # es"
        proof (cases "execute_reply drv (now w1) sql")
          case (Inl err)
          with b show ?thesis
            by (auto simp: query_generator_body_def cursor_execute_def emit_def)
        next
          case (Inr cs)
          with b have "wb = snd (fetch_loop drv cu chunk_size (emit (Execute cu sql) (w1\<lparr>cur := cs\<rparr>)))"
            by (auto simp: query_generator_body_def cursor_execute_def)
          with fetch_loop_trace [of drv cu chunk_size "emit (Execute cu sql) (w1\<lparr>cur := cs\<rparr>)"]
          show ?thesis by (auto simp: emit_def)
        qed
        then obtain es where es: "trace wb = trace w1 @ Execute cu sql # es" ..
        have "\<exists>es'. trace (snd (snd (query_generator drv self sql chunk_size w)))
                 = trace w1 @ Execute cu sql # es'"
        proof (cases rb)
          case (Inl err)
          with ct h Some b es show ?thesis
            by (simp add: query_generator_def get_cursor_def connection_rollback_def emit_def)
        next
          case (Inr v)
          with ct h Some b es show ?thesis
            by (simp add: query_generator_def get_cursor_def)
        qed
        with ct Some show ?thesis by simp
      qed
    qed
  qed
qed

theorem query_generator_forwards_blank_witness:
  "strip ''  '' = [] \<and>
   connect reachable localhost w0 = (Inr True, session0, after_connect) \<and>
   cursor session0 = Some 0 \<and>
   (\<exists>es. trace (snd (snd (query_generator reachable localhost ''  '' 1000 w0)))
           = trace after_connect @ Execute 0 ''  '' # es)"
proof -
  have b: "\<forall>ch\<in>set ''  ''. isspace ch"
    by (simp add: isspace_def)
  have s: "strip ''  '' = []"
    by code_simp
  have c: "cursor session0 = Some 0"
    by (simp add: session0_def)
  from query_generator_forwards_blank [OF b, where drv = reachable and self = localhost and w = w0 and chunk_size = 1000]
  show ?thesis
    using s c by (simp add: connect_reachable)
qed



section \<open>Properties of the window\<close>

lemma result_tree_on_root_resize [simp]: "result_tree (on_root_resize self) = result_tree self"
  by (simp add: on_root_resize_def Let_def split: option.splits)

lemma gridded_on_root_resize [simp]:
  "result_frame_gridded (on_root_resize self) = result_frame_gridded self"
  by (simp add: on_root_resize_def Let_def split: option.splits)

lemma items_delete:
  "tv_items (delete item tv) = filter (\<lambda>(i, values). i \<noteq> item) (tv_items tv)"
  by (simp add: delete_def)

lemma items_fold_delete:
  "tv_items (fold delete ids tv) = filter (\<lambda>(i, values). i \<notin> set ids) (tv_items tv)"
proof (induction ids arbitrary: tv)
  case Nil
  then show ?case by simp
next
  case (Cons a ids)
  have "tv_items (fold delete (a # ids) tv)
          = filter (\<lambda>(i, values). i \<notin> set ids) (tv_items (delete a tv))"
    by (simp add: Cons.IH)
  also have "\<dots> = filter (\<lambda>(i, values). i \<notin> set (a # ids)) (tv_items tv)"
    unfolding items_delete filter_filter by (rule filter_cong) auto
  finally show ?case .
qed

lemma items_cleared: "tv_items (fold delete (get_children tv) tv) = []"
  unfolding items_fold_delete get_children_def filter_empty_conv by force

lemma items_fold_configure [simp]:
  "tv_items (fold configure_column cols tv) = tv_items tv"
  by (induction cols arbitrary: tv)
     (simp_all add: configure_column_def heading_def column_def Let_def)

lemma columns_fold_configure [simp]:
  "tv_columns (fold configure_column cols tv) = tv_columns tv"
  by (induction cols arbitrary: tv)
     (simp_all add: configure_column_def heading_def column_def Let_def)

lemma columns_fold_insert [simp]:
  "tv_columns (fold (insert_row cols) rows tv) = tv_columns tv"
  by (induction rows arbitrary: tv) (simp_all add: insert_row_def insert_end_def)

lemma items_fold_insert:
  "map snd (tv_items (fold (insert_row cols) rows tv))
     = map snd (tv_items tv) @ map (\<lambda>row. map (\<lambda>col. dict_get row col (StrVal '''')) cols) rows"
  by (induction rows arbitrary: tv) (simp_all add: insert_row_def insert_end_def)

text \<open>
  Claim C7. For a result set of \<open>N > 0\<close> rows, whose first row has the keys \<open>C\<close> in
  this order, \<open>load_to_tkinter_grid\<close> sets the columns of the tree to \<open>C\<close> and leaves
  exactly \<open>N\<close> items in it, one per row and in the order of the rows; the item of a row
  holds, for each column of \<open>C\<close> in order, the value the row has under that key, and
  the empty string where the row has no such key. The result frame is shown. No step
  of the function can raise: every operation of the model is total.
\<close>

theorem load_to_tkinter_grid_rows:
  assumes "results \<noteq> []"
  shows "tv_columns (result_tree (load_to_tkinter_grid self results)) = dict_keys (hd results) \<and>
         length (tv_items (result_tree (load_to_tkinter_grid self results))) = length results \<and>
         map snd (tv_items (result_tree (load_to_tkinter_grid self results)))
           = map (\<lambda>row. map (\<lambda>col. dict_get row col (StrVal '''')) (dict_keys (hd results))) results \<and>
         (\<forall>row col. map_of row col = None \<longrightarrow> dict_get row col (StrVal '''') = StrVal '''') \<and>
         (\<forall>row col v. map_of row col = Some v \<longrightarrow> dict_get row col (StrVal '''') = v) \<and>
         result_frame_gridded (load_to_tkinter_grid self results)"
proof -
  from assms obtain first others where r: "results = first # others"
    by (cases results) auto
  let ?tv1 = "fold delete (get_children (result_tree self)) (result_tree self)"
  let ?tv3 = "fold configure_column (dict_keys first) (set_columns (dict_keys first) ?tv1)"
  let ?tv4 = "fold (insert_row (dict_keys first)) results ?tv3"
  have t: "result_tree (load_to_tkinter_grid self results) = ?tv4"
    by (simp add: load_to_tkinter_grid_def r Let_def)
  have g: "result_frame_gridded (load_to_tkinter_grid self results)"
    by (simp add: load_to_tkinter_grid_def r Let_def)
  have "tv_items ?tv3 = []"
    by (simp add: set_columns_def items_cleared)
  then have m: "map snd (tv_items ?tv4)
      = map (\<lambda>row. map (\<lambda>col. dict_get row col (StrVal '''')) (dict_keys first)) results"
    by (simp add: items_fold_insert)
  then have "length (map snd (tv_items ?tv4)) = length results"
    by simp
  then have l: "length (tv_items ?tv4) = length results"
    by simp
  have c: "tv_columns ?tv4 = dict_keys first"
    by (simp add: set_columns_def)
  show ?thesis
    using t g m l c r by (simp add: dict_get_def)
qed

lemma asked_sql:
  "clean_ai_response ''```sql\<newline>SELECT name, population FROM country;\<newline>```''
     = ''SELECT name, population FROM country;''"
  by code_simp

lemma connect_empty_table:
  "connect empty_table localhost w0 = (Inr True, session0, after_connect)"
  by (simp add: connect_def empty_table_def localhost_def w0_def init_def connect_attempt_def
      mysql_connect_def now_def emit_def upto.simps connection_cursor_def
      session0_def after_connect_def)

lemma strip_select: "strip ''SELECT name, population FROM country;'' \<noteq> []"
  by code_simp

lemma execute_empty_table:
  "execute empty_table localhost ''SELECT name, population FROM country;'' w0
     = (Inr [], session0, emptied)"
proof -
  have b: "execute_body empty_table ''SELECT name, population FROM country;'' session0
             (cursor session0) after_connect = (Inr [], emptied)"
    by (simp add: execute_body_def cursor_execute_def cursor_fetchall_def emit_def now_def
        empty_table_def session0_def after_connect_def emptied_def w0_def)
  show ?thesis
    using strip_select by (simp add: execute_def get_cursor_def connect_empty_table b)
qed

lemma on_submit_empty:
  assumes "strip (text_widget self) \<noteq> []"
    and "send_message (text_widget self) = Inr reply"
    and "db self = Some d"
    and "execute drv d (clean_ai_response reply) w = (Inr [], d1, w1)"
  shows "on_submit send_message drv self w =
           (Inr (),
            self\<lparr>status_var := ''Submitted ('' @ str_nat (length (text_widget self)) @ '' chars)'',
                 db := Some d1,
                 result_frame_gridded := True\<rparr>,
            w1)"
  using assms
  by (simp add: on_submit_def generate_sql_def execute_sql_def load_to_tkinter_grid_def Let_def)

lemma asked_facts:
  "strip (text_widget asked) \<noteq> []"
  "translator (text_widget asked)
     = Inr ''```sql\<newline>SELECT name, population FROM country;\<newline>```''"
  "db asked = Some localhost"
  "\<not> result_frame_gridded asked"
proof -
  have "strip ''show all countries'' \<noteq> []" by code_simp
  then show "strip (text_widget asked) \<noteq> []"
    by (simp add: asked_def create_widgets_def)
qed (simp_all add: asked_def create_widgets_def translator_def)

theorem load_to_tkinter_grid_rows_witness:
  "two_rows \<noteq> [] \<and>
   tv_columns (result_tree (load_to_tkinter_grid asked two_rows)) = [''name'', ''population''] \<and>
   length (tv_items (result_tree (load_to_tkinter_grid asked two_rows))) = 2 \<and>
   map snd (tv_items (result_tree (load_to_tkinter_grid asked two_rows)))
     = [[StrVal ''Canada'', IntVal 38], [StrVal ''Chile'', StrVal '''']]"
proof -
  have ne: "two_rows \<noteq> []"
    by (simp add: two_rows_def)
  from load_to_tkinter_grid_rows [OF ne, of asked]
  have a: "tv_columns (result_tree (load_to_tkinter_grid asked two_rows)) = dict_keys (hd two_rows)"
    and b: "length (tv_items (result_tree (load_to_tkinter_grid asked two_rows))) = length two_rows"
    and c: "map snd (tv_items (result_tree (load_to_tkinter_grid asked two_rows)))
           = map (\<lambda>row. map (\<lambda>col. dict_get row col (StrVal [])) (dict_keys (hd two_rows))) two_rows"
    by blast+
  have "dict_keys (hd two_rows) = [''name'', ''population'']" "length two_rows = 2"
    "map (\<lambda>row. map (\<lambda>col. dict_get row col (StrVal [])) (dict_keys (hd two_rows))) two_rows
       = [[StrVal ''Canada'', IntVal 38], [StrVal ''Chile'', StrVal []]]"
    by (simp_all add: two_rows_def dict_keys_def dict_get_def)
  with a b c ne show ?thesis
    by simp
qed


text \<open>
  Claim C6, as amended. When \<open>on_submit\<close> runs a query whose execution returns an empty
  result set, the result tree is left as it was (columns, headings and items: prior
  content is unchanged), and so is the layout; the status line and the connection are
  updated, and the result frame is put on the grid, so that a frame that was hidden
  before the submission is shown.
\<close>

theorem on_submit_empty_result:
  assumes "strip (text_widget self) \<noteq> []"
    and "send_message (text_widget self) = Inr reply"
    and "db self = Some d"
    and "execute drv d (clean_ai_response reply) w = (Inr [], d1, w1)"
  shows "on_submit send_message drv self w =
           (Inr (),
            self\<lparr>status_var := ''Submitted ('' @ str_nat (length (text_widget self)) @ '' chars)'',
                 db := Some d1,
                 result_frame_gridded := True\<rparr>,
            w1)"
  using assms by (rule on_submit_empty)

theorem on_submit_empty_result_witness:
  "strip (text_widget asked) \<noteq> [] \<and>
   translator (text_widget asked)
     = Inr ''```sql\<newline>SELECT name, population FROM country;\<newline>```'' \<and>
   db asked = Some localhost \<and>
   execute empty_table localhost
      (clean_ai_response ''```sql\<newline>SELECT name, population FROM country;\<newline>```'') w0
     = (Inr [], session0, emptied) \<and>
   on_submit translator empty_table asked w0 =
     (Inr (),
      asked\<lparr>status_var := ''Submitted ('' @ str_nat (length (text_widget asked)) @ '' chars)'',
            db := Some session0,
            result_frame_gridded := True\<rparr>,
      emptied)"
proof -
  have e: "execute empty_table localhost
      (clean_ai_response ''```sql\<newline>SELECT name, population FROM country;\<newline>```'') w0
     = (Inr [], session0, emptied)"
    by (simp only: asked_sql execute_empty_table)
  from on_submit_empty_result [where send_message = translator, OF asked_facts(1) asked_facts(2) asked_facts(3) e]
  show ?thesis
    using asked_facts e by simp
qed

text \<open>
  Claim C6 as stated fails: in the window as \<open>create_widgets\<close> leaves it the result
  frame is hidden; a submission whose query returns no row ends with the frame shown.
\<close>

theorem on_submit_shows_hidden_frame_counterexample:
  "\<not> result_frame_gridded asked \<and>
   fst (execute empty_table localhost ''SELECT name, population FROM country;'' w0) = Inr [] \<and>
   fst (on_submit translator empty_table asked w0) = Inr () \<and>
   result_frame_gridded (fst (snd (on_submit translator empty_table asked w0)))"
proof -
  have e: "execute empty_table localhost
      (clean_ai_response ''```sql\<newline>SELECT name, population FROM country;\<newline>```'') w0
     = (Inr [], session0, emptied)"
    by (simp only: asked_sql execute_empty_table)
  from on_submit_empty [where send_message = translator, OF asked_facts(1) asked_facts(2) asked_facts(3) e]
  show ?thesis
    using asked_facts(4) by (simp add: execute_empty_table)
qed



section \<open>Properties of the speech listener\<close>

lemma stops_log [simp]: "stops (log m self) = stops self"
  by (simp add: stops_def log_def)

lemma stops_on_transcription [simp]: "stops (on_transcription t self) = stops self"
  by (simp add: stops_def on_transcription_def)


lemma on_stop_log [simp]: "on_stop (log m self) = on_stop self"
  by (simp add: log_def)

lemma on_stop_on_transcription [simp]: "on_stop (on_transcription t self) = on_stop self"
  by (simp add: on_transcription_def)

lemma is_listening_log [simp]: "is_listening (log m self) = is_listening self"
  by (simp add: log_def)

lemma is_listening_notify [simp]: "is_listening (notify_stop self) = is_listening self"
  by (simp add: notify_stop_def)

lemma stops_flags [simp]:
  "stops (self\<lparr>is_listening := a\<rparr>) = stops self"
  "stops (self\<lparr>stop_listening := b\<rparr>) = stops self"
  by (simp_all add: stops_def)









end
